theory Spec2Isabelle
  imports Main "HOL-Library.Sublist"
begin

section \<open>Data model\<close>

text \<open>
  A parsed GenBank record (Biopython's SeqRecord), restricted to the three attributes the
  program reads: \<open>r.id\<close>, \<open>r.seq\<close> and \<open>r.description\<close>.  The sequence is
  the string of its letters, so \<open>len(r.seq)\<close> is the length of that string.
\<close>

record seq_record =
  id' :: string
  seq :: string
  description :: string

text \<open>\<open>len(r.seq)\<close> as a Python integer.\<close>

definition len_seq :: "seq_record \<Rightarrow> int" where
  "len_seq r = int (length (seq r))"

section \<open>Record filter\<close>

text \<open>
  \<^verbatim>\<open>return [r for r in records if min_len <= len(r.seq) <= max_len]\<close>
  The comprehension visits the records from left to right and appends the ones that pass
  the chained comparison.
\<close>

primrec filter_records :: "seq_record list \<Rightarrow> int \<Rightarrow> int \<Rightarrow> seq_record list" where
  "filter_records [] min_len max_len = []"
| "filter_records (r # records) min_len max_len =
     (if min_len \<le> len_seq r \<and> len_seq r \<le> max_len
      then r # filter_records records min_len max_len
      else filter_records records min_len max_len)"

section \<open>Exceptions and the outside world\<close>

text \<open>
  A raised Python exception: an instance of a subclass of \<open>Exception\<close>, with its class
  name and the text \<open>str(e)\<close>, or one of the exceptions that derive from
  \<open>BaseException\<close> only, which \<^verbatim>\<open>except Exception\<close> does not catch.
\<close>

datatype py_exc = Exception string string | KeyboardInterrupt | SystemExit

fun is_Exception :: "py_exc \<Rightarrow> bool" where
  "is_Exception (Exception cls msg) = True"
| "is_Exception KeyboardInterrupt = False"
| "is_Exception SystemExit = False"

fun str_exc :: "py_exc \<Rightarrow> string" where
  "str_exc (Exception cls msg) = msg"
| "str_exc KeyboardInterrupt = []"
| "str_exc SystemExit = []"

text \<open>\<open>repr\<close> of a plain string, as \<open>str(KeyError(k))\<close> shows the key.\<close>

definition repr_str :: "string \<Rightarrow> string" where
  "repr_str s = CHR 0x27 # s @ [CHR 0x27]"

definition IndexError :: py_exc where
  "IndexError = Exception ''IndexError'' ''list index out of range''"

definition KeyError :: "string \<Rightarrow> py_exc" where
  "KeyError k = Exception ''KeyError'' (repr_str k)"

definition AttributeError :: "string \<Rightarrow> py_exc" where
  "AttributeError a = Exception ''AttributeError''
     (CHR 0x27 # ''NCBIRetriever'' @ CHR 0x27 # '' object has no attribute '' @ repr_str a)"

definition EOFError :: py_exc where
  "EOFError = Exception ''EOFError'' ''EOF when reading a line''"

text \<open>One call of \<open>Entrez.efetch\<close> on the nucleotide database, with its arguments.\<close>

record efetch_call =
  db :: string
  rettype :: string
  retmode :: string
  retstart :: int
  retmax :: int
  call_webenv :: string
  call_query_key :: string

text \<open>A row of the data frame built by \<open>save_csv\<close>.\<close>

record row =
  accession :: string
  length' :: int
  description' :: string

text \<open>
  Everything the program calls and does not define: the remote service behind
  \<open>Bio.Entrez\<close>, the parsers, the built-in \<open>int\<close>, and the library calls of pandas and
  matplotlib whose outcome the program does not determine.  A handle is the text it yields.
  Each call either returns or raises.  The theorems below hold for every such environment.
\<close>

record env =
  taxonomy_efetch :: "string \<Rightarrow> py_exc + string"
  read_taxonomy :: "string \<Rightarrow> py_exc + (string \<rightharpoonup> string) list"
  esearch :: "string \<Rightarrow> py_exc + string"
  read_esearch :: "string \<Rightarrow> py_exc + (string \<rightharpoonup> string)"
  py_int :: "string \<Rightarrow> py_exc + int"
  nucleotide_efetch :: "efetch_call \<Rightarrow> py_exc + string"
  seqio_parse :: "string \<Rightarrow> py_exc + seq_record list"
  sort_values :: "row list \<Rightarrow> row list"
  to_csv_error :: "string \<Rightarrow> (py_exc \<times> nat option) option"
  savefig_error :: "string \<Rightarrow> py_exc option"

section \<open>Remote database client\<close>

text \<open>
  The attributes of an \<open>NCBIRetriever\<close> object.  \<open>__init__\<close> assigns none of them, so
  each is absent (\<open>None\<close>) until \<open>search\<close> assigns it; reading an absent attribute
  raises \<open>AttributeError\<close>.
\<close>

record retriever =
  organism :: "string option"
  count :: "int option"
  webenv :: "string option"
  query_key :: "string option"

definition new_retriever :: retriever where
  "new_retriever = \<lparr>organism = None, count = None, webenv = None, query_key = None\<rparr>"

text \<open>
  The body of the \<open>try\<close> block of \<open>search\<close>, statement by statement.  The state is the
  retriever and the lines printed so far; the result is the returned count or the exception
  that left the block.
\<close>

definition search_try ::
  "env \<Rightarrow> string \<Rightarrow> retriever \<Rightarrow> string list \<Rightarrow> (py_exc + int) \<times> retriever \<times> string list" where
  "search_try e taxid self out =
     (case taxonomy_efetch e taxid of
        Inl x \<Rightarrow> (Inl x, self, out)
      | Inr handle \<Rightarrow>
     (case read_taxonomy e handle of
        Inl x \<Rightarrow> (Inl x, self, out)
      | Inr records \<Rightarrow>
     (case records of
        [] \<Rightarrow> (Inl IndexError, self, out)
      | first # others \<Rightarrow>
     (case first ''ScientificName'' of
        None \<Rightarrow> (Inl (KeyError ''ScientificName''), self, out)
      | Some name \<Rightarrow>
     (let self1 = self\<lparr>organism := Some name\<rparr>;
          out1 = out @ [''Organism: '' @ name];
          search_term = ''txid'' @ taxid @ ''[Organism]''
      in
     (case esearch e search_term of
        Inl x \<Rightarrow> (Inl x, self1, out1)
      | Inr handle2 \<Rightarrow>
     (case read_esearch e handle2 of
        Inl x \<Rightarrow> (Inl x, self1, out1)
      | Inr res \<Rightarrow>
     (case res ''Count'' of
        None \<Rightarrow> (Inl (KeyError ''Count''), self1, out1)
      | Some c \<Rightarrow>
     (case py_int e c of
        Inl x \<Rightarrow> (Inl x, self1, out1)
      | Inr n \<Rightarrow>
     (let self2 = self1\<lparr>count := Some n\<rparr> in
     (case res ''WebEnv'' of
        None \<Rightarrow> (Inl (KeyError ''WebEnv''), self2, out1)
      | Some w \<Rightarrow>
     (let self3 = self2\<lparr>webenv := Some w\<rparr> in
     (case res ''QueryKey'' of
        None \<Rightarrow> (Inl (KeyError ''QueryKey''), self3, out1)
      | Some q \<Rightarrow>
     (let self4 = self3\<lparr>query_key := Some q\<rparr> in
        (Inr n, self4, out1)))))))))))))))"

text \<open>
  \<open>search\<close>: the \<open>try\<close> block under \<^verbatim>\<open>except Exception as e\<close>, whose handler prints
  the error and returns 0.  An exception outside the \<open>Exception\<close> hierarchy passes through.
\<close>

definition search ::
  "env \<Rightarrow> string \<Rightarrow> retriever \<Rightarrow> string list \<Rightarrow> (py_exc + int) \<times> retriever \<times> string list" where
  "search e taxid self out =
     (case search_try e taxid self out of
        (Inr n, self', out') \<Rightarrow> (Inr n, self', out')
      | (Inl x, self', out') \<Rightarrow>
          (if is_Exception x then (Inr 0, self', out' @ [''Search error: '' @ str_exc x])
           else (Inl x, self', out')))"

text \<open>
  \<open>range(start, stop, step)\<close> for a positive step, the only kind the program uses
  (\<open>range(0, max_records, 500)\<close>).
\<close>

function py_range :: "int \<Rightarrow> int \<Rightarrow> int \<Rightarrow> int list" where
  "py_range start stop step =
     (if 0 < step \<and> start < stop then start # py_range (start + step) stop step else [])"
  by pat_completeness auto
termination
  by (relation "measure (\<lambda>(start, stop, step). nat (stop - start))") auto

declare py_range.simps [simp del]

definition batch_size :: int where
  "batch_size = 500"

text \<open>
  The loop of \<open>fetch_records\<close> over the remaining start offsets.  The arguments of
  \<open>Entrez.efetch\<close> are evaluated before the call, so an absent \<open>webenv\<close> or
  \<open>query_key\<close> raises before anything is sent.  The second component of the result lists
  the calls issued, in order.  An exception from the service or from the parser ends the
  loop and leaves \<open>fetch_records\<close>.
\<close>

fun fetch_loop ::
  "env \<Rightarrow> retriever \<Rightarrow> int \<Rightarrow> int list \<Rightarrow> seq_record list \<Rightarrow> efetch_call list
     \<Rightarrow> (py_exc + seq_record list) \<times> efetch_call list" where
  "fetch_loop e self max_records [] all_records calls = (Inr all_records, calls)"
| "fetch_loop e self max_records (start # starts) all_records calls =
     (case webenv self of
        None \<Rightarrow> (Inl (AttributeError ''webenv''), calls)
      | Some w \<Rightarrow>
     (case query_key self of
        None \<Rightarrow> (Inl (AttributeError ''query_key''), calls)
      | Some q \<Rightarrow>
     (let call = \<lparr>db = ''nucleotide'', rettype = ''gb'', retmode = ''text'',
                  retstart = start, retmax = min batch_size (max_records - start),
                  call_webenv = w, call_query_key = q\<rparr>
      in
     (case nucleotide_efetch e call of
        Inl x \<Rightarrow> (Inl x, calls @ [call])
      | Inr handle \<Rightarrow>
     (case seqio_parse e handle of
        Inl x \<Rightarrow> (Inl x, calls @ [call])
      | Inr parsed \<Rightarrow>
          fetch_loop e self max_records starts (all_records @ parsed) (calls @ [call]))))))"

definition fetch_records ::
  "env \<Rightarrow> retriever \<Rightarrow> int \<Rightarrow> (py_exc + seq_record list) \<times> efetch_call list" where
  "fetch_records e self max_records =
     fetch_loop e self max_records (py_range 0 max_records batch_size) [] []"

section \<open>Console, files and figures\<close>

text \<open>
  A matplotlib figure, as far as \<open>plot_lengths\<close> draws on it: the size asked for
  (\<open>None\<close> for the library's default), the plotted series (accession against length),
  the tick settings, the labels, the title and whether \<open>tight_layout\<close> was applied.
\<close>

record figure =
  figsize :: "(int \<times> int) option"
  series :: "(string \<times> int) list"
  marker :: string
  xticks :: "(int \<times> int) option"
  xlabel :: string
  ylabel :: string
  title :: string
  tight_layout :: bool

definition new_figure :: "(int \<times> int) option \<Rightarrow> figure" where
  "new_figure dims = \<lparr>figsize = dims, series = [], marker = [], xticks = None,
     xlabel = [], ylabel = [], title = [], tight_layout = False\<rparr>"

text \<open>
  A written file: a CSV table (its header and its rows, in order) or a rendered image of a
  figure.  The bytes that pandas and matplotlib produce are theirs, not the program's.
\<close>

datatype file_content = CsvFile "string list" "row list" | PngFile figure

text \<open>
  The state the program acts on: the lines still to be read from standard input, the text
  written to standard output (prompts and printed lines, in order), the files of the working
  directory, the figures pyplot holds open (the current one first), and the ambient fields
  of \<open>Bio.Entrez\<close>.
\<close>

record world =
  stdin :: "string list"
  stdout :: "string list"
  files :: "string \<rightharpoonup> file_content"
  figures :: "figure list"
  entrez_email :: "string option"
  entrez_api_key :: "string option"
  entrez_tool :: "string option"

type_synonym 'a io = "world \<Rightarrow> (py_exc + 'a) \<times> world"

text \<open>Sequencing of two statements: an exception raised by the first skips the second.\<close>

definition then_do :: "'a io \<Rightarrow> ('a \<Rightarrow> 'b io) \<Rightarrow> 'b io" where
  "then_do m f w = (case m w of (Inl x, w') \<Rightarrow> (Inl x, w') | (Inr v, w') \<Rightarrow> f v w')"

definition lift :: "py_exc + 'a \<Rightarrow> 'a io" where
  "lift v w = (v, w)"

definition print :: "string \<Rightarrow> unit io" where
  "print s w = (Inr (), w\<lparr>stdout := stdout w @ [s]\<rparr>)"

definition input :: "string \<Rightarrow> string io" where
  "input prompt w =
     (case stdin w of
        [] \<Rightarrow> (Inl EOFError, w\<lparr>stdout := stdout w @ [prompt]\<rparr>)
      | line # lines \<Rightarrow> (Inr line, w\<lparr>stdin := lines, stdout := stdout w @ [prompt]\<rparr>))"

text \<open>\<open>str\<close> of an integer, as the f-strings of \<open>main\<close> format it.\<close>

fun str_nat :: "nat \<Rightarrow> string" where
  "str_nat n =
     (if n < 10 then [char_of (48 + n)] else str_nat (n div 10) @ [char_of (48 + n mod 10)])"

declare str_nat.simps [simp del]

definition str_int :: "int \<Rightarrow> string" where
  "str_int i = (if i < 0 then CHR ''-'' # str_nat (nat (- i)) else str_nat (nat i))"

section \<open>Tabulator\<close>

text \<open>
  \<open>save_csv\<close>.  The data frame of a list of dictionaries is the list of its rows; built
  from no dictionary at all it has no column, and \<open>sort_values(by="length")\<close> raises
  \<open>KeyError\<close>.  The frame is sorted in place before it is written, so the file holds the
  sorted rows, under the header of the three keys in the order of the dictionary.  The
  order \<open>sort_values\<close> gives the rows is the library's and is taken from the
  environment.  A write that raises either could not open the file, and leaves the
  directory as it was, or had opened it, and leaves the file with the rows written so far;
  the environment says which, and how many rows.
\<close>

definition save_csv :: "env \<Rightarrow> seq_record list \<Rightarrow> string \<Rightarrow> (row list) io" where
  "save_csv e records filename w =
     (let data = map (\<lambda>r. \<lparr>accession = id' r, length' = len_seq r,
                            description' = description r\<rparr>) records
      in
      if data = [] then (Inl (KeyError ''length''), w)
      else
        (let df = sort_values e data in
         (case to_csv_error e filename of
            Some (x, None) \<Rightarrow> (Inl x, w)
          | Some (x, Some k) \<Rightarrow>
              (Inl x,
               w\<lparr>files := (files w)(filename \<mapsto>
                     CsvFile [''accession'', ''length'', ''description''] (take k df))\<rparr>)
          | None \<Rightarrow>
              (Inr df,
               w\<lparr>files := (files w)(filename \<mapsto>
                     CsvFile [''accession'', ''length'', ''description''] df)\<rparr>))))"

section \<open>Plotter\<close>

text \<open>
  The pyplot calls act on the current figure, creating one when none is open;
  \<open>plt.close()\<close> closes the current figure.
\<close>

definition on_current :: "(figure \<Rightarrow> figure) \<Rightarrow> world \<Rightarrow> world" where
  "on_current f w =
     (case figures w of
        [] \<Rightarrow> w\<lparr>figures := [f (new_figure None)]\<rparr>
      | fig # figs \<Rightarrow> w\<lparr>figures := f fig # figs\<rparr>)"

definition plt_figure :: "int \<times> int \<Rightarrow> world \<Rightarrow> world" where
  "plt_figure dims w = w\<lparr>figures := new_figure (Some dims) # figures w\<rparr>"

definition plt_close :: "world \<Rightarrow> world" where
  "plt_close w = w\<lparr>figures := tl (figures w)\<rparr>"

definition plt_savefig :: "env \<Rightarrow> string \<Rightarrow> unit io" where
  "plt_savefig e filename w =
     (let w1 = on_current (\<lambda>fig. fig) w in
      (case savefig_error e filename of
         Some x \<Rightarrow> (Inl x, w1)
       | None \<Rightarrow> (Inr (), w1\<lparr>files := (files w1)(filename \<mapsto> PngFile (hd (figures w1)))\<rparr>)))"

text \<open>
  \<open>plot_lengths\<close>, statement by statement.  \<open>plt.close()\<close> is the last statement of the
  body, outside any \<open>try\<close>: it runs when \<open>plt.savefig\<close> has returned.
\<close>

definition plot_lengths :: "env \<Rightarrow> row list \<Rightarrow> string \<Rightarrow> unit io" where
  "plot_lengths e df png_filename w =
     (if df = [] then (Inl (KeyError ''length''), w)
      else
        (let df_sorted = sort_values e df;
             w1 = plt_figure (12, 6) w;
             w2 = on_current (\<lambda>fig. fig\<lparr>series := map (\<lambda>r. (accession r, length' r)) df_sorted,
                                          marker := ''o''\<rparr>) w1;
             w3 = on_current (\<lambda>fig. fig\<lparr>xticks := Some (90, 6)\<rparr>) w2;
             w4 = on_current (\<lambda>fig. fig\<lparr>xlabel := ''Accession''\<rparr>) w3;
             w5 = on_current (\<lambda>fig. fig\<lparr>ylabel := ''Sequence Length''\<rparr>) w4;
             w6 = on_current (\<lambda>fig. fig\<lparr>title := ''Sequence Lengths (sorted)''\<rparr>) w5;
             w7 = on_current (\<lambda>fig. fig\<lparr>tight_layout := True\<rparr>) w6
         in
         (case plt_savefig e png_filename w7 of
            (Inl x, w8) \<Rightarrow> (Inl x, w8)
          | (Inr u, w8) \<Rightarrow> (Inr (), plt_close w8))))"

section \<open>Orchestrator\<close>

text \<open>\<open>NCBIRetriever(email, api_key)\<close>: sets the ambient fields, assigns no attribute.\<close>

definition NCBIRetriever :: "string \<Rightarrow> string \<Rightarrow> retriever io" where
  "NCBIRetriever email api_key w =
     (Inr new_retriever,
      w\<lparr>entrez_email := Some email, entrez_api_key := Some api_key,
        entrez_tool := Some ''BioScriptEx10''\<rparr>)"

text \<open>A call of \<open>search\<close> from \<open>main\<close>: its printed lines go to standard output.\<close>

definition call_search :: "env \<Rightarrow> string \<Rightarrow> retriever \<Rightarrow> (int \<times> retriever) io" where
  "call_search e taxid self w =
     (case search e taxid self (stdout w) of
        (Inl x, self', out') \<Rightarrow> (Inl x, w\<lparr>stdout := out'\<rparr>)
      | (Inr n, self', out') \<Rightarrow> (Inr (n, self'), w\<lparr>stdout := out'\<rparr>))"

definition main :: "env \<Rightarrow> unit io" where
  "main e =
     then_do (input ''Enter NCBI email: '') (\<lambda>email.
     then_do (input ''Enter NCBI API key: '') (\<lambda>api_key.
     then_do (input ''Enter TaxID: '') (\<lambda>taxid.
     then_do (input ''Min sequence length: '') (\<lambda>min_text.
     then_do (lift (py_int e min_text)) (\<lambda>min_len.
     then_do (input ''Max sequence length: '') (\<lambda>max_text.
     then_do (lift (py_int e max_text)) (\<lambda>max_len.
     then_do (NCBIRetriever email api_key) (\<lambda>retriever0.
     then_do (call_search e taxid retriever0) (\<lambda>(count, retriever).
       if count = 0 then print ''No results.''
       else
     then_do (print (''Fetching up to 1000 records out of '' @ str_int count
                      @ '' available...'')) (\<lambda>u.
     then_do (lift (fst (fetch_records e retriever 1000))) (\<lambda>raw_records.
       (let filtered = filter_records raw_records min_len max_len in
        if filtered = [] then print ''No records match length criteria.''
        else
          (let csv_name = ''taxid_'' @ taxid @ ''_filtered.csv'';
               png_name = ''taxid_'' @ taxid @ ''_plot.png''
           in
     then_do (save_csv e filtered csv_name) (\<lambda>df.
     then_do (plot_lengths e df png_name) (\<lambda>u.
     then_do (print (''Saved '' @ str_int (int (length filtered)) @ '' records to ''
                      @ csv_name)) (\<lambda>u.
       print (''Plot saved as '' @ png_name)))))))))))))))))"

section \<open>Sequences of searches\<close>

text \<open>
  A retriever after a sequence of \<open>search\<close> calls, each against its own state of the
  service, and whether one of them ran its \<open>try\<close> block to the \<open>return\<close>.
\<close>

fun after_searches :: "(env \<times> string) list \<Rightarrow> retriever \<Rightarrow> retriever \<times> bool" where
  "after_searches [] self = (self, False)"
| "after_searches ((e, taxid) # later) self =
     (case search_try e taxid self [] of
        (Inl x, self', out') \<Rightarrow> after_searches later self'
      | (Inr n, self', out') \<Rightarrow> (fst (after_searches later self'), True))"

section \<open>Sample environments\<close>

text \<open>
  The built-in \<open>int\<close> on a string of ASCII characters, for the sample runs: white space
  around the numeral is dropped, a sign may lead, and single underscores may separate digits.
\<close>

definition is_digit :: "char \<Rightarrow> bool" where
  "is_digit c = (48 \<le> (of_char c :: nat) \<and> (of_char c :: nat) \<le> 57)"

definition digit_value :: "char \<Rightarrow> int" where
  "digit_value c = int (of_char c) - 48"

definition is_space :: "char \<Rightarrow> bool" where
  "is_space c = (c \<in> set [CHR '' '', CHR 0x09, CHR 0x0A, CHR 0x0B, CHR 0x0C, CHR 0x0D,
     CHR 0x1C, CHR 0x1D, CHR 0x1E, CHR 0x1F])"

definition strip :: "string \<Rightarrow> string" where
  "strip s = rev (dropWhile is_space (rev (dropWhile is_space s)))"

fun read_digits :: "string \<Rightarrow> int \<Rightarrow> int option" where
  "read_digits [] acc = Some acc"
| "read_digits [c] acc = (if is_digit c then Some (10 * acc + digit_value c) else None)"
| "read_digits (c # d # cs) acc =
     (if is_digit c then read_digits (d # cs) (10 * acc + digit_value c)
      else if c = CHR ''_'' \<and> is_digit d then read_digits cs (10 * acc + digit_value d)
      else None)"

definition read_unsigned :: "string \<Rightarrow> int option" where
  "read_unsigned s =
     (case s of
        [] \<Rightarrow> None
      | c # cs \<Rightarrow> if is_digit c then read_digits cs (digit_value c) else None)"

definition read_signed :: "string \<Rightarrow> int option" where
  "read_signed s =
     (case s of
        [] \<Rightarrow> None
      | c # cs \<Rightarrow>
          if c = CHR ''-'' then map_option uminus (read_unsigned cs)
          else if c = CHR ''+'' then read_unsigned cs
          else read_unsigned s)"

definition sample_int :: "string \<Rightarrow> py_exc + int" where
  "sample_int s =
     (case read_signed (strip s) of
        Some n \<Rightarrow> Inr n
      | None \<Rightarrow>
          Inl (Exception ''ValueError''
                 (''invalid literal for int() with base 10: '' @ repr_str s)))"

text \<open>
  A service that knows the organism and answers every page with the same two records, of
  lengths 8 and 2; its sort of a data frame is by descending length and keeps rows of equal
  length in their order.
\<close>

definition sample_records :: "seq_record list" where
  "sample_records =
     [\<lparr>id' = ''AB000001.1'', seq = ''ACGTACGT'', description = ''first''\<rparr>,
      \<lparr>id' = ''AB000002.1'', seq = ''AC'', description = ''second''\<rparr>]"

definition sample_env :: env where
  "sample_env =
     \<lparr>taxonomy_efetch = (\<lambda>taxid. Inr ''taxonomy''),
      read_taxonomy = (\<lambda>handle. Inr [[''ScientificName'' \<mapsto> ''Homo sapiens'']]),
      esearch = (\<lambda>term. Inr ''esearch''),
      read_esearch = (\<lambda>handle.
         Inr [''Count'' \<mapsto> ''1200'', ''WebEnv'' \<mapsto> ''MCID_1'', ''QueryKey'' \<mapsto> ''1'']),
      py_int = sample_int,
      nucleotide_efetch = (\<lambda>call. Inr ''genbank''),
      seqio_parse = (\<lambda>handle. Inr sample_records),
      sort_values = (\<lambda>df. sort_key (\<lambda>r. - length' r) df),
      to_csv_error = (\<lambda>filename. None),
      savefig_error = (\<lambda>filename. None)\<rparr>"

text \<open>The same service when the network is down, when the identifier is unknown, when the
  answer to the search cannot be parsed or lacks the query key, when it finds nothing, and
  when the image cannot be written.\<close>

definition offline_env :: env where
  "offline_env = sample_env
     \<lparr>taxonomy_efetch := (\<lambda>taxid. Inl (Exception ''URLError'' ''<urlopen error>''))\<rparr>"

definition unknown_taxid_env :: env where
  "unknown_taxid_env = sample_env\<lparr>read_taxonomy := (\<lambda>handle. Inr [])\<rparr>"

definition garbled_env :: env where
  "garbled_env = sample_env
     \<lparr>read_esearch := (\<lambda>handle. Inl (Exception ''NotXMLError''
        ''Failed to parse the XML data''))\<rparr>"

definition no_query_key_env :: env where
  "no_query_key_env = sample_env
     \<lparr>read_esearch := (\<lambda>handle. Inr [''Count'' \<mapsto> ''1200'', ''WebEnv'' \<mapsto> ''MCID_1''])\<rparr>"

definition no_hits_env :: env where
  "no_hits_env = sample_env
     \<lparr>read_esearch := (\<lambda>handle.
        Inr [''Count'' \<mapsto> ''0'', ''WebEnv'' \<mapsto> ''MCID_1'', ''QueryKey'' \<mapsto> ''1''])\<rparr>"

definition read_only_env :: env where
  "read_only_env = sample_env
     \<lparr>savefig_error := (\<lambda>filename. Some (Exception ''PermissionError'' ''Permission denied''))\<rparr>"

text \<open>The retriever once \<open>search\<close> has succeeded against the sample service.\<close>

definition searched :: retriever where
  "searched = \<lparr>organism = Some ''Homo sapiens'', count = Some 1200, webenv = Some ''MCID_1'',
         query_key = Some ''1''\<rparr>"

text \<open>A data frame of two rows, as \<open>save_csv\<close> returns it.\<close>

definition sample_table :: "row list" where
  "sample_table =
     [\<lparr>accession = ''AB000001.1'', length' = 8, description' = ''first''\<rparr>,
      \<lparr>accession = ''AB000002.1'', length' = 2, description' = ''second''\<rparr>]"

definition sample_world :: "string list \<Rightarrow> world" where
  "sample_world lines =
     \<lparr>stdin = lines, stdout = [], files = Map.empty, figures = [],
      entrez_email = None, entrez_api_key = None, entrez_tool = None\<rparr>"

section \<open>Properties of the record filter\<close>

lemma filter_records_filter:
  "filter_records records lo hi = filter (\<lambda>r. lo \<le> len_seq r \<and> len_seq r \<le> hi) records"
  by (induction records) simp_all

lemma filter_records_subseq: "subseq (filter_records records lo hi) records"
  by (simp add: filter_records_filter)

text \<open>
  Claim C1.  For every list of records and all integer bounds, \<open>filter_records\<close> returns
  exactly the records whose sequence length lies in the closed interval: the result is the
  order-preserving selection of those records (a subsequence of the input, every occurrence
  of a record in range kept, nothing else), the function is a pure value of its arguments,
  and when no record is in range the result is the empty list.
\<close>

theorem filter_records_exact:
  "filter_records records lo hi = filter (\<lambda>r. lo \<le> len_seq r \<and> len_seq r \<le> hi) records
   \<and> subseq (filter_records records lo hi) records
   \<and> set (filter_records records lo hi) = {r \<in> set records. lo \<le> len_seq r \<and> len_seq r \<le> hi}
   \<and> ((\<forall>r \<in> set records. \<not> (lo \<le> len_seq r \<and> len_seq r \<le> hi))
        \<longrightarrow> filter_records records lo hi = [])"
proof -
  have sel: "filter_records records lo hi
      = filter (\<lambda>r. lo \<le> len_seq r \<and> len_seq r \<le> hi) records"
    by (rule filter_records_filter)
  have sub: "subseq (filter_records records lo hi) records"
    by (rule filter_records_subseq)
  have mem: "set (filter_records records lo hi)
      = {r \<in> set records. lo \<le> len_seq r \<and> len_seq r \<le> hi}"
    unfolding sel by simp
  have none: "(\<forall>r \<in> set records. \<not> (lo \<le> len_seq r \<and> len_seq r \<le> hi))
      \<longrightarrow> filter_records records lo hi = []"
    unfolding sel by (simp add: filter_empty_conv)
  from sel sub mem none show ?thesis by blast
qed

theorem filter_records_exact_witness:
  "filter_records
      [\<lparr>id' = ''A'', seq = ''ACGTACGT'', description = ''long''\<rparr>,
       \<lparr>id' = ''B'', seq = ''AC'', description = ''short''\<rparr>] 10 20 = []
   \<and> filter_records
      [\<lparr>id' = ''A'', seq = ''ACGTACGT'', description = ''long''\<rparr>,
       \<lparr>id' = ''B'', seq = ''AC'', description = ''short''\<rparr>,
       \<lparr>id' = ''C'', seq = ''ACGTA'', description = ''mid''\<rparr>] 5 8
     = [\<lparr>id' = ''A'', seq = ''ACGTACGT'', description = ''long''\<rparr>,
        \<lparr>id' = ''C'', seq = ''ACGTA'', description = ''mid''\<rparr>]"
proof -
  let ?rs = "[\<lparr>id' = ''A'', seq = ''ACGTACGT'', description = ''long''\<rparr>,
              \<lparr>id' = ''B'', seq = ''AC'', description = ''short''\<rparr>]"
  have no_match: "\<forall>r \<in> set ?rs. \<not> (10 \<le> len_seq r \<and> len_seq r \<le> 20)"
    by (simp add: len_seq_def)
  have first: "filter_records ?rs 10 20 = []"
    using filter_records_exact [of ?rs 10 20] no_match by blast
  have second: "filter_records
      [\<lparr>id' = ''A'', seq = ''ACGTACGT'', description = ''long''\<rparr>,
       \<lparr>id' = ''B'', seq = ''AC'', description = ''short''\<rparr>,
       \<lparr>id' = ''C'', seq = ''ACGTA'', description = ''mid''\<rparr>] 5 8
     = [\<lparr>id' = ''A'', seq = ''ACGTACGT'', description = ''long''\<rparr>,
        \<lparr>id' = ''C'', seq = ''ACGTA'', description = ''mid''\<rparr>]"
    by (simp add: len_seq_def)
  from first second show ?thesis by simp
qed

section \<open>Properties of search\<close>

lemma search_never_raises: "is_Exception x \<Longrightarrow> fst (search e taxid self out) \<noteq> Inl x"
  by (auto simp: search_def split: prod.splits sum.splits)

lemma search_handler:
  "search_try e taxid self out = (Inl x, self', out') \<Longrightarrow> is_Exception x \<Longrightarrow>
   search e taxid self out = (Inr 0, self', out' @ [''Search error: '' @ str_exc x])"
  by (simp add: search_def)

lemma search_try_lookup_fails:
  "taxonomy_efetch e taxid = Inl x \<Longrightarrow> search_try e taxid self out = (Inl x, self, out)"
  by (simp add: search_try_def)

lemma search_try_lookup_malformed:
  "taxonomy_efetch e taxid = Inr h \<Longrightarrow> read_taxonomy e h = Inl x \<Longrightarrow>
   search_try e taxid self out = (Inl x, self, out)"
  by (simp add: search_try_def)

lemma search_try_unknown_id:
  "taxonomy_efetch e taxid = Inr h \<Longrightarrow> read_taxonomy e h = Inr [] \<Longrightarrow>
   search_try e taxid self out = (Inl IndexError, self, out)"
  by (simp add: search_try_def)

lemma search_try_esearch_fails:
  "taxonomy_efetch e taxid = Inr h \<Longrightarrow> read_taxonomy e h = Inr (d # ds) \<Longrightarrow>
   d ''ScientificName'' = Some name \<Longrightarrow>
   esearch e (''txid'' @ taxid @ ''[Organism]'') = Inl x \<Longrightarrow>
   search_try e taxid self out
     = (Inl x, self\<lparr>organism := Some name\<rparr>, out @ [''Organism: '' @ name])"
  by (simp add: search_try_def)

lemma search_try_success:
  "taxonomy_efetch e taxid = Inr h \<Longrightarrow> read_taxonomy e h = Inr (d # ds) \<Longrightarrow>
   d ''ScientificName'' = Some name \<Longrightarrow>
   esearch e (''txid'' @ taxid @ ''[Organism]'') = Inr h2 \<Longrightarrow>
   read_esearch e h2 = Inr res \<Longrightarrow> res ''Count'' = Some c \<Longrightarrow> py_int e c = Inr n \<Longrightarrow>
   res ''WebEnv'' = Some w \<Longrightarrow> res ''QueryKey'' = Some q \<Longrightarrow>
   search_try e taxid self out
     = (Inr n, self\<lparr>organism := Some name, count := Some n, webenv := Some w,
                     query_key := Some q\<rparr>, out @ [''Organism: '' @ name])"
  by (simp add: search_try_def)

lemma search_try_no_name:
  "taxonomy_efetch e taxid = Inr h \<Longrightarrow> read_taxonomy e h = Inr (d # ds) \<Longrightarrow>
   d ''ScientificName'' = None \<Longrightarrow>
   search_try e taxid self out = (Inl (KeyError ''ScientificName''), self, out)"
  by (simp add: search_try_def)

lemma search_try_esearch_malformed:
  "taxonomy_efetch e taxid = Inr h \<Longrightarrow> read_taxonomy e h = Inr (d # ds) \<Longrightarrow>
   d ''ScientificName'' = Some name \<Longrightarrow>
   esearch e (''txid'' @ taxid @ ''[Organism]'') = Inr h2 \<Longrightarrow> read_esearch e h2 = Inl x \<Longrightarrow>
   search_try e taxid self out
     = (Inl x, self\<lparr>organism := Some name\<rparr>, out @ [''Organism: '' @ name])"
  by (simp add: search_try_def)

lemma search_try_no_count:
  "taxonomy_efetch e taxid = Inr h \<Longrightarrow> read_taxonomy e h = Inr (d # ds) \<Longrightarrow>
   d ''ScientificName'' = Some name \<Longrightarrow>
   esearch e (''txid'' @ taxid @ ''[Organism]'') = Inr h2 \<Longrightarrow> read_esearch e h2 = Inr res \<Longrightarrow>
   res ''Count'' = None \<Longrightarrow>
   search_try e taxid self out
     = (Inl (KeyError ''Count''), self\<lparr>organism := Some name\<rparr>,
        out @ [''Organism: '' @ name])"
  by (simp add: search_try_def)

lemma search_try_bad_count:
  "taxonomy_efetch e taxid = Inr h \<Longrightarrow> read_taxonomy e h = Inr (d # ds) \<Longrightarrow>
   d ''ScientificName'' = Some name \<Longrightarrow>
   esearch e (''txid'' @ taxid @ ''[Organism]'') = Inr h2 \<Longrightarrow> read_esearch e h2 = Inr res \<Longrightarrow>
   res ''Count'' = Some c \<Longrightarrow> py_int e c = Inl x \<Longrightarrow>
   search_try e taxid self out
     = (Inl x, self\<lparr>organism := Some name\<rparr>, out @ [''Organism: '' @ name])"
  by (simp add: search_try_def)

lemma search_try_no_webenv:
  "taxonomy_efetch e taxid = Inr h \<Longrightarrow> read_taxonomy e h = Inr (d # ds) \<Longrightarrow>
   d ''ScientificName'' = Some name \<Longrightarrow>
   esearch e (''txid'' @ taxid @ ''[Organism]'') = Inr h2 \<Longrightarrow> read_esearch e h2 = Inr res \<Longrightarrow>
   res ''Count'' = Some c \<Longrightarrow> py_int e c = Inr n \<Longrightarrow> res ''WebEnv'' = None \<Longrightarrow>
   search_try e taxid self out
     = (Inl (KeyError ''WebEnv''), self\<lparr>organism := Some name, count := Some n\<rparr>,
        out @ [''Organism: '' @ name])"
  by (simp add: search_try_def)

lemma search_try_no_query_key:
  "taxonomy_efetch e taxid = Inr h \<Longrightarrow> read_taxonomy e h = Inr (d # ds) \<Longrightarrow>
   d ''ScientificName'' = Some name \<Longrightarrow>
   esearch e (''txid'' @ taxid @ ''[Organism]'') = Inr h2 \<Longrightarrow> read_esearch e h2 = Inr res \<Longrightarrow>
   res ''Count'' = Some c \<Longrightarrow> py_int e c = Inr n \<Longrightarrow> res ''WebEnv'' = Some w \<Longrightarrow>
   res ''QueryKey'' = None \<Longrightarrow>
   search_try e taxid self out
     = (Inl (KeyError ''QueryKey''),
        self\<lparr>organism := Some name, count := Some n, webenv := Some w\<rparr>,
        out @ [''Organism: '' @ name])"
  by (simp add: search_try_def)

lemma search_logs:
  "search_try e taxid self out = (Inl x, self', out') \<Longrightarrow> is_Exception x \<Longrightarrow>
   str_exc x = msg \<Longrightarrow>
   search e taxid self out = (Inr 0, self', out' @ [''Search error: '' @ msg])"
  by (simp add: search_def)

lemma str_KeyError: "is_Exception (KeyError k) \<and> str_exc (KeyError k) = repr_str k"
  by (simp add: KeyError_def)

text \<open>
  Claim C6.  \<open>search\<close> never leaves through an exception of the \<open>Exception\<close> hierarchy.
  Whatever the service and the parsers do, each way the taxonomy lookup or the
  history-enabled search can fail ends in one printed line \<open>Search error: ...\<close> and the
  value 0: the lookup or the search raising (network failure), a parser rejecting the
  response (malformed response), an empty taxonomy result (unknown identifier), a response
  without \<open>ScientificName\<close>, \<open>Count\<close>, \<open>WebEnv\<close> or \<open>QueryKey\<close>, and a count that
  is no number.  The attributes assigned before the failing statement stay assigned.  When
  every step succeeds, \<open>search\<close> returns the count of the response and has stored the
  organism name, the count and the pair \<open>WebEnv\<close>, \<open>QueryKey\<close>.
\<close>

theorem search_catches_errors:
  "(\<forall>x. is_Exception x \<longrightarrow> fst (search e taxid self out) \<noteq> Inl x)
   \<and> (\<forall>x self' out'. search_try e taxid self out = (Inl x, self', out') \<and> is_Exception x \<longrightarrow>
         search e taxid self out = (Inr 0, self', out' @ [''Search error: '' @ str_exc x]))
   \<and> (\<forall>x. taxonomy_efetch e taxid = Inl x \<and> is_Exception x \<longrightarrow>
         search e taxid self out = (Inr 0, self, out @ [''Search error: '' @ str_exc x]))
   \<and> (\<forall>h x. taxonomy_efetch e taxid = Inr h \<and> read_taxonomy e h = Inl x \<and> is_Exception x \<longrightarrow>
         search e taxid self out = (Inr 0, self, out @ [''Search error: '' @ str_exc x]))
   \<and> (\<forall>h. taxonomy_efetch e taxid = Inr h \<and> read_taxonomy e h = Inr [] \<longrightarrow>
         search e taxid self out
           = (Inr 0, self, out @ [''Search error: list index out of range'']))
   \<and> (\<forall>h d ds. taxonomy_efetch e taxid = Inr h \<and> read_taxonomy e h = Inr (d # ds)
         \<and> d ''ScientificName'' = None \<longrightarrow>
         search e taxid self out
           = (Inr 0, self, out @ [''Search error: '' @ repr_str ''ScientificName'']))
   \<and> (\<forall>h d ds name. taxonomy_efetch e taxid = Inr h \<and> read_taxonomy e h = Inr (d # ds)
         \<and> d ''ScientificName'' = Some name \<longrightarrow>
        (\<forall>x. esearch e (''txid'' @ taxid @ ''[Organism]'') = Inl x \<and> is_Exception x \<longrightarrow>
           search e taxid self out
             = (Inr 0, self\<lparr>organism := Some name\<rparr>,
                out @ [''Organism: '' @ name, ''Search error: '' @ str_exc x]))
        \<and> (\<forall>h2. esearch e (''txid'' @ taxid @ ''[Organism]'') = Inr h2 \<longrightarrow>
           (\<forall>x. read_esearch e h2 = Inl x \<and> is_Exception x \<longrightarrow>
              search e taxid self out
                = (Inr 0, self\<lparr>organism := Some name\<rparr>,
                   out @ [''Organism: '' @ name, ''Search error: '' @ str_exc x]))
           \<and> (\<forall>res. read_esearch e h2 = Inr res \<longrightarrow>
              (res ''Count'' = None \<longrightarrow>
                 search e taxid self out
                   = (Inr 0, self\<lparr>organism := Some name\<rparr>,
                      out @ [''Organism: '' @ name, ''Search error: '' @ repr_str ''Count'']))
              \<and> (\<forall>c. res ''Count'' = Some c \<longrightarrow>
                 (\<forall>x. py_int e c = Inl x \<and> is_Exception x \<longrightarrow>
                    search e taxid self out
                      = (Inr 0, self\<lparr>organism := Some name\<rparr>,
                         out @ [''Organism: '' @ name, ''Search error: '' @ str_exc x]))
                 \<and> (\<forall>n. py_int e c = Inr n \<longrightarrow>
                    (res ''WebEnv'' = None \<longrightarrow>
                       search e taxid self out
                         = (Inr 0, self\<lparr>organism := Some name, count := Some n\<rparr>,
                            out @ [''Organism: '' @ name,
                                   ''Search error: '' @ repr_str ''WebEnv'']))
                    \<and> (\<forall>w. res ''WebEnv'' = Some w \<longrightarrow>
                       (res ''QueryKey'' = None \<longrightarrow>
                          search e taxid self out
                            = (Inr 0,
                               self\<lparr>organism := Some name, count := Some n,
                                      webenv := Some w\<rparr>,
                               out @ [''Organism: '' @ name,
                                      ''Search error: '' @ repr_str ''QueryKey'']))
                       \<and> (\<forall>q. res ''QueryKey'' = Some q \<longrightarrow>
                          search e taxid self out
                            = (Inr n,
                               self\<lparr>organism := Some name, count := Some n,
                                      webenv := Some w, query_key := Some q\<rparr>,
                               out @ [''Organism: '' @ name]))))))))"
proof (intro conjI allI impI; (elim conjE)?)
  fix x assume "is_Exception x"
  then show "fst (search e taxid self out) \<noteq> Inl x" by (rule search_never_raises)
next
  fix x self' out'
  assume "search_try e taxid self out = (Inl x, self', out')" "is_Exception x"
  then show "search e taxid self out = (Inr 0, self', out' @ [''Search error: '' @ str_exc x])"
    by (rule search_handler)
next
  fix x assume "taxonomy_efetch e taxid = Inl x" "is_Exception x"
  then show "search e taxid self out = (Inr 0, self, out @ [''Search error: '' @ str_exc x])"
    by (simp add: search_handler search_try_lookup_fails)
next
  fix h x
  assume "taxonomy_efetch e taxid = Inr h" "read_taxonomy e h = Inl x" "is_Exception x"
  then show "search e taxid self out = (Inr 0, self, out @ [''Search error: '' @ str_exc x])"
    by (simp add: search_handler search_try_lookup_malformed)
next
  fix h
  assume "taxonomy_efetch e taxid = Inr h" "read_taxonomy e h = Inr []"
  then have "search_try e taxid self out = (Inl IndexError, self, out)"
    by (rule search_try_unknown_id)
  then show "search e taxid self out
      = (Inr 0, self, out @ [''Search error: list index out of range''])"
    by (simp add: search_def IndexError_def)
next
  fix h d ds
  assume "taxonomy_efetch e taxid = Inr h" "read_taxonomy e h = Inr (d # ds)"
    "d ''ScientificName'' = None"
  then have "search_try e taxid self out = (Inl (KeyError ''ScientificName''), self, out)"
    by (rule search_try_no_name)
  then show "search e taxid self out
      = (Inr 0, self, out @ [''Search error: '' @ repr_str ''ScientificName''])"
    by (rule search_logs) (simp_all add: str_KeyError)
next
  fix h d ds name x
  assume "taxonomy_efetch e taxid = Inr h" "read_taxonomy e h = Inr (d # ds)"
    "d ''ScientificName'' = Some name"
    "esearch e (''txid'' @ taxid @ ''[Organism]'') = Inl x" "is_Exception x"
  then show "search e taxid self out
      = (Inr 0, self\<lparr>organism := Some name\<rparr>,
         out @ [''Organism: '' @ name, ''Search error: '' @ str_exc x])"
    by (simp add: search_try_esearch_fails search_def)
next
  fix h d ds name h2 x
  assume "taxonomy_efetch e taxid = Inr h" "read_taxonomy e h = Inr (d # ds)"
    "d ''ScientificName'' = Some name"
    "esearch e (''txid'' @ taxid @ ''[Organism]'') = Inr h2"
    "read_esearch e h2 = Inl x" "is_Exception x"
  then show "search e taxid self out
      = (Inr 0, self\<lparr>organism := Some name\<rparr>,
         out @ [''Organism: '' @ name, ''Search error: '' @ str_exc x])"
    by (simp add: search_try_esearch_malformed search_def)
next
  fix h d ds name h2 res
  assume "taxonomy_efetch e taxid = Inr h" "read_taxonomy e h = Inr (d # ds)"
    "d ''ScientificName'' = Some name"
    "esearch e (''txid'' @ taxid @ ''[Organism]'') = Inr h2"
    "read_esearch e h2 = Inr res" "res ''Count'' = None"
  then have "search_try e taxid self out
     = (Inl (KeyError ''Count''), self\<lparr>organism := Some name\<rparr>,
        out @ [''Organism: '' @ name])"
    by (rule search_try_no_count)
  then show "search e taxid self out
      = (Inr 0, self\<lparr>organism := Some name\<rparr>,
         out @ [''Organism: '' @ name, ''Search error: '' @ repr_str ''Count''])"
    by (simp add: search_def str_KeyError)
next
  fix h d ds name h2 res c x
  assume "taxonomy_efetch e taxid = Inr h" "read_taxonomy e h = Inr (d # ds)"
    "d ''ScientificName'' = Some name"
    "esearch e (''txid'' @ taxid @ ''[Organism]'') = Inr h2"
    "read_esearch e h2 = Inr res" "res ''Count'' = Some c"
    "py_int e c = Inl x" "is_Exception x"
  then show "search e taxid self out
      = (Inr 0, self\<lparr>organism := Some name\<rparr>,
         out @ [''Organism: '' @ name, ''Search error: '' @ str_exc x])"
    by (simp add: search_try_bad_count search_def)
next
  fix h d ds name h2 res c n
  assume "taxonomy_efetch e taxid = Inr h" "read_taxonomy e h = Inr (d # ds)"
    "d ''ScientificName'' = Some name"
    "esearch e (''txid'' @ taxid @ ''[Organism]'') = Inr h2"
    "read_esearch e h2 = Inr res" "res ''Count'' = Some c"
    "py_int e c = Inr n" "res ''WebEnv'' = None"
  then have "search_try e taxid self out
     = (Inl (KeyError ''WebEnv''), self\<lparr>organism := Some name, count := Some n\<rparr>,
        out @ [''Organism: '' @ name])"
    by (rule search_try_no_webenv)
  then show "search e taxid self out
      = (Inr 0, self\<lparr>organism := Some name, count := Some n\<rparr>,
         out @ [''Organism: '' @ name, ''Search error: '' @ repr_str ''WebEnv''])"
    by (simp add: search_def str_KeyError)
next
  fix h d ds name h2 res c n w
  assume "taxonomy_efetch e taxid = Inr h" "read_taxonomy e h = Inr (d # ds)"
    "d ''ScientificName'' = Some name"
    "esearch e (''txid'' @ taxid @ ''[Organism]'') = Inr h2"
    "read_esearch e h2 = Inr res" "res ''Count'' = Some c"
    "py_int e c = Inr n" "res ''WebEnv'' = Some w" "res ''QueryKey'' = None"
  then have "search_try e taxid self out
     = (Inl (KeyError ''QueryKey''),
        self\<lparr>organism := Some name, count := Some n, webenv := Some w\<rparr>,
        out @ [''Organism: '' @ name])"
    by (rule search_try_no_query_key)
  then show "search e taxid self out
      = (Inr 0, self\<lparr>organism := Some name, count := Some n, webenv := Some w\<rparr>,
         out @ [''Organism: '' @ name, ''Search error: '' @ repr_str ''QueryKey''])"
    by (simp add: search_def str_KeyError)
next
  fix h d ds name h2 res c n w q
  assume "taxonomy_efetch e taxid = Inr h" "read_taxonomy e h = Inr (d # ds)"
    "d ''ScientificName'' = Some name"
    "esearch e (''txid'' @ taxid @ ''[Organism]'') = Inr h2"
    "read_esearch e h2 = Inr res" "res ''Count'' = Some c"
    "py_int e c = Inr n" "res ''WebEnv'' = Some w" "res ''QueryKey'' = Some q"
  then have "search_try e taxid self out
     = (Inr n, self\<lparr>organism := Some name, count := Some n, webenv := Some w,
                     query_key := Some q\<rparr>, out @ [''Organism: '' @ name])"
    by (rule search_try_success)
  then show "search e taxid self out
      = (Inr n, self\<lparr>organism := Some name, count := Some n, webenv := Some w,
                      query_key := Some q\<rparr>, out @ [''Organism: '' @ name])"
    by (simp add: search_def)
qed


lemma sample_int_1200: "sample_int ''1200'' = Inr 1200"
  by (simp add: sample_int_def strip_def is_space_def read_signed_def read_unsigned_def
      is_digit_def digit_value_def)

lemma sample_map_lookups:
  "[''Count'' \<mapsto> ''1200'', ''WebEnv'' \<mapsto> ''MCID_1'', ''QueryKey'' \<mapsto> ''1''] ''Count'' = Some ''1200''"
  "[''Count'' \<mapsto> ''1200'', ''WebEnv'' \<mapsto> ''MCID_1'', ''QueryKey'' \<mapsto> ''1''] ''WebEnv'' = Some ''MCID_1''"
  "[''Count'' \<mapsto> ''1200'', ''WebEnv'' \<mapsto> ''MCID_1'', ''QueryKey'' \<mapsto> ''1''] ''QueryKey'' = Some ''1''"
  "[''Count'' \<mapsto> ''1200'', ''WebEnv'' \<mapsto> ''MCID_1''] ''Count'' = Some ''1200''"
  "[''Count'' \<mapsto> ''1200'', ''WebEnv'' \<mapsto> ''MCID_1''] ''WebEnv'' = Some ''MCID_1''"
  "[''Count'' \<mapsto> ''1200'', ''WebEnv'' \<mapsto> ''MCID_1''] ''QueryKey'' = None"
  "[''ScientificName'' \<mapsto> ''Homo sapiens''] ''ScientificName'' = Some ''Homo sapiens''"
  by simp_all

theorem search_catches_errors_witness:
  "search offline_env ''9606'' new_retriever []
     = (Inr 0, new_retriever, [''Search error: <urlopen error>''])
   \<and> search unknown_taxid_env ''9606'' new_retriever []
     = (Inr 0, new_retriever, [''Search error: list index out of range''])
   \<and> search garbled_env ''9606'' new_retriever []
     = (Inr 0, new_retriever\<lparr>organism := Some ''Homo sapiens''\<rparr>,
        [''Organism: Homo sapiens'', ''Search error: Failed to parse the XML data''])
   \<and> search no_query_key_env ''9606'' new_retriever []
     = (Inr 0,
        new_retriever\<lparr>organism := Some ''Homo sapiens'', count := Some 1200,
                       webenv := Some ''MCID_1''\<rparr>,
        [''Organism: Homo sapiens'', ''Search error: '' @ repr_str ''QueryKey''])
   \<and> search sample_env ''9606'' new_retriever []
     = (Inr 1200,
        new_retriever\<lparr>organism := Some ''Homo sapiens'', count := Some 1200,
                       webenv := Some ''MCID_1'', query_key := Some ''1''\<rparr>,
        [''Organism: Homo sapiens''])"
proof -
  have down: "taxonomy_efetch offline_env ''9606'' = Inl (Exception ''URLError'' ''<urlopen error>'')
      \<and> is_Exception (Exception ''URLError'' ''<urlopen error>'')"
    by (simp add: offline_env_def sample_env_def)
  have first: "search offline_env ''9606'' new_retriever []
     = (Inr 0, new_retriever, [''Search error: <urlopen error>''])"
    using search_catches_errors [of offline_env "''9606''" new_retriever "[]"] down
    by simp
  have unknown: "taxonomy_efetch unknown_taxid_env ''9606'' = Inr ''taxonomy''
      \<and> read_taxonomy unknown_taxid_env ''taxonomy'' = Inr []"
    by (simp add: unknown_taxid_env_def sample_env_def)
  have second: "search unknown_taxid_env ''9606'' new_retriever []
     = (Inr 0, new_retriever, [''Search error: list index out of range''])"
    using search_catches_errors [of unknown_taxid_env "''9606''" new_retriever "[]"] unknown
    by simp
  have lookup: "taxonomy_efetch env ''9606'' = Inr ''taxonomy''
      \<and> read_taxonomy env ''taxonomy'' = Inr [[''ScientificName'' \<mapsto> ''Homo sapiens'']]
      \<and> [''ScientificName'' \<mapsto> ''Homo sapiens''] ''ScientificName'' = Some ''Homo sapiens''
      \<and> esearch env (''txid'' @ ''9606'' @ ''[Organism]'') = Inr ''esearch''"
    if "env = garbled_env \<or> env = no_query_key_env \<or> env = sample_env" for env
    using that
    by (auto simp: garbled_env_def no_query_key_env_def sample_env_def)
  have garbled: "read_esearch garbled_env ''esearch''
        = Inl (Exception ''NotXMLError'' ''Failed to parse the XML data'')
      \<and> is_Exception (Exception ''NotXMLError'' ''Failed to parse the XML data'')"
    by (simp add: garbled_env_def sample_env_def)
  have third: "search garbled_env ''9606'' new_retriever []
     = (Inr 0, new_retriever\<lparr>organism := Some ''Homo sapiens''\<rparr>,
        [''Organism: Homo sapiens'', ''Search error: Failed to parse the XML data''])"
    using search_catches_errors [of garbled_env "''9606''" new_retriever "[]"]
      lookup [of garbled_env] garbled
    by (elim conjE allE [where x = "''taxonomy''"]) auto
  have no_key: "read_esearch no_query_key_env ''esearch''
        = Inr [''Count'' \<mapsto> ''1200'', ''WebEnv'' \<mapsto> ''MCID_1'']
      \<and> py_int no_query_key_env ''1200'' = Inr 1200"
    by (simp add: no_query_key_env_def sample_env_def sample_int_1200)
  have fourth: "search no_query_key_env ''9606'' new_retriever []
     = (Inr 0,
        new_retriever\<lparr>organism := Some ''Homo sapiens'', count := Some 1200,
                       webenv := Some ''MCID_1''\<rparr>,
        [''Organism: Homo sapiens'', ''Search error: '' @ repr_str ''QueryKey''])"
    using search_catches_errors [of no_query_key_env "''9606''" new_retriever "[]"]
      lookup [of no_query_key_env] no_key sample_map_lookups
    by (elim conjE allE [where x = "''taxonomy''"]) auto
  have good: "read_esearch sample_env ''esearch''
        = Inr [''Count'' \<mapsto> ''1200'', ''WebEnv'' \<mapsto> ''MCID_1'', ''QueryKey'' \<mapsto> ''1'']
      \<and> py_int sample_env ''1200'' = Inr 1200"
    by (simp add: sample_env_def sample_int_1200)
  have fifth: "search sample_env ''9606'' new_retriever []
     = (Inr 1200,
        new_retriever\<lparr>organism := Some ''Homo sapiens'', count := Some 1200,
                       webenv := Some ''MCID_1'', query_key := Some ''1''\<rparr>,
        [''Organism: Homo sapiens''])"
    using search_catches_errors [of sample_env "''9606''" new_retriever "[]"]
      lookup [of sample_env] good sample_map_lookups
    by (elim conjE allE [where x = "''taxonomy''"]) auto
  from first second third fourth fifth show ?thesis by simp
qed

section \<open>Properties of the paged fetch\<close>













section \<open>The session token as a precondition of the fetch\<close>

lemma search_try_failed_query_key:
  "search_try e taxid self out = (Inl x, self', out') \<Longrightarrow> query_key self = None \<Longrightarrow>
   query_key self' = None"
  by (auto simp: search_try_def Let_def split: sum.splits list.splits option.splits)

lemma search_try_keeps_token:
  "search_try e taxid self out = (v, self', out') \<Longrightarrow>
   webenv self \<noteq> None \<Longrightarrow> query_key self \<noteq> None \<Longrightarrow>
   webenv self' \<noteq> None \<and> query_key self' \<noteq> None"
  by (auto simp: search_try_def Let_def split: sum.splits list.splits option.splits)

lemma search_try_sets_token:
  "search_try e taxid self out = (Inr n, self', out') \<Longrightarrow>
   webenv self' \<noteq> None \<and> query_key self' \<noteq> None"
  by (auto simp: search_try_def Let_def split: sum.splits list.splits option.splits)

lemma after_searches_keeps_token:
  "webenv self \<noteq> None \<Longrightarrow> query_key self \<noteq> None \<Longrightarrow>
   webenv (fst (after_searches runs self)) \<noteq> None
   \<and> query_key (fst (after_searches runs self)) \<noteq> None"
proof (induction runs arbitrary: self)
  case Nil
  then show ?case by simp
next
  case (Cons run runs)
  obtain e taxid where run: "run = (e, taxid)" by (cases run)
  obtain v self' out' where st: "search_try e taxid self [] = (v, self', out')"
    by (cases "search_try e taxid self []")
  from search_try_keeps_token [OF st Cons.prems]
  have "webenv self' \<noteq> None" and "query_key self' \<noteq> None" by simp_all
  from Cons.IH [OF this] show ?case
    by (cases v) (simp_all add: run st)
qed

lemma after_searches_none_completed:
  "after_searches runs self = (self', False) \<Longrightarrow> query_key self = None \<Longrightarrow>
   query_key self' = None"
proof (induction runs arbitrary: self)
  case Nil
  then show ?case by simp
next
  case (Cons run runs)
  obtain e taxid where run: "run = (e, taxid)" by (cases run)
  obtain v self1 out1 where st: "search_try e taxid self [] = (v, self1, out1)"
    by (cases "search_try e taxid self []")
  show ?case
  proof (cases v)
    case (Inl x)
    with Cons.prems run st have rest: "after_searches runs self1 = (self', False)" by simp
    from st Inl Cons.prems have "query_key self1 = None"
      by (auto dest: search_try_failed_query_key)
    from Cons.IH [OF rest this] show ?thesis .
  next
    case (Inr n)
    with Cons.prems run st show ?thesis by simp
  qed
qed

lemma after_searches_one_completed:
  "after_searches runs self = (self', True) \<Longrightarrow>
   webenv self' \<noteq> None \<and> query_key self' \<noteq> None"
proof (induction runs arbitrary: self)
  case Nil
  then show ?case by simp
next
  case (Cons run runs)
  obtain e taxid where run: "run = (e, taxid)" by (cases run)
  obtain v self1 out1 where st: "search_try e taxid self [] = (v, self1, out1)"
    by (cases "search_try e taxid self []")
  show ?case
  proof (cases v)
    case (Inl x)
    with Cons.prems run st have "after_searches runs self1 = (self', True)" by simp
    from Cons.IH [OF this] show ?thesis .
  next
    case (Inr n)
    with Cons.prems run st have self': "self' = fst (after_searches runs self1)" by auto
    from st Inr have "webenv self1 \<noteq> None \<and> query_key self1 \<noteq> None"
      by (auto dest: search_try_sets_token)
    then show ?thesis unfolding self' by (simp add: after_searches_keeps_token)
  qed
qed

lemma fetch_loop_without_token:
  "query_key self = None \<Longrightarrow>
   fetch_loop e self m (start # starts) acc calls
     = (Inl (AttributeError (if webenv self = None then ''webenv'' else ''query_key'')), calls)"
  by (simp split: option.splits)

lemma py_range_nonempty:
  "0 < m \<Longrightarrow> py_range 0 m batch_size = 0 # py_range batch_size m batch_size"
  by (subst py_range.simps) (simp add: batch_size_def)

text \<open>
  Claim C10, as amended.  On a retriever on which no call of \<open>search\<close> has run its
  \<open>try\<close> block to the end, \<open>fetch_records\<close> with a positive \<open>max_records\<close> raises
  \<open>AttributeError\<close> on the first absent token field, before any request is sent.  With
  \<open>max_records \<le> 0\<close> the loop body never runs: the token fields are not read and the
  result is the empty list, on any retriever.  Once a search has completed, both fields are
  present and stay present.
\<close>

theorem fetch_records_needs_search:
  "(after_searches runs new_retriever = (self, False) \<and> 0 < max_records \<longrightarrow>
      fetch_records e self max_records
        = (Inl (AttributeError (if webenv self = None then ''webenv'' else ''query_key'')), []))
   \<and> (max_records \<le> 0 \<longrightarrow> fetch_records e self max_records = (Inr [], []))
   \<and> (after_searches runs new_retriever = (self, True) \<longrightarrow>
        webenv self \<noteq> None \<and> query_key self \<noteq> None)"
proof (intro conjI impI)
  assume a: "after_searches runs new_retriever = (self, False) \<and> 0 < max_records"
  then have "query_key self = None"
    using after_searches_none_completed [of runs new_retriever self]
    by (simp add: new_retriever_def)
  with a show "fetch_records e self max_records
        = (Inl (AttributeError (if webenv self = None then ''webenv'' else ''query_key'')), [])"
    by (simp only: fetch_records_def py_range_nonempty fetch_loop_without_token)
next
  assume "max_records \<le> 0"
  then show "fetch_records e self max_records = (Inr [], [])"
    by (simp add: fetch_records_def py_range.simps)
next
  assume "after_searches runs new_retriever = (self, True)"
  then show "webenv self \<noteq> None" by (simp add: after_searches_one_completed)
next
  assume "after_searches runs new_retriever = (self, True)"
  then show "query_key self \<noteq> None" by (simp add: after_searches_one_completed)
qed

lemma offline_search_try:
  "search_try offline_env ''9606'' new_retriever []
     = (Inl (Exception ''URLError'' ''<urlopen error>''), new_retriever, [])"
  by (simp add: search_try_def offline_env_def sample_env_def)

theorem fetch_records_needs_search_witness:
  "after_searches [(offline_env, ''9606'')] new_retriever = (new_retriever, False)
   \<and> fetch_records sample_env new_retriever 1000 = (Inl (AttributeError ''webenv''), [])
   \<and> fetch_records sample_env searched (- 5) = (Inr [], [])"
proof -
  have run: "after_searches [(offline_env, ''9606'')] new_retriever = (new_retriever, False)"
    by (simp add: offline_search_try)
  have "fetch_records sample_env new_retriever 1000
      = (Inl (AttributeError (if webenv new_retriever = None then ''webenv''
                              else ''query_key'')), [])"
    using fetch_records_needs_search
      [of "[(offline_env, ''9606'')]" new_retriever 1000 sample_env] run
    by simp
  moreover have "fetch_records sample_env searched (- 5) = (Inr [], [])"
    using fetch_records_needs_search [of "[]" searched "- 5" sample_env] by simp
  ultimately show ?thesis using run by (simp add: new_retriever_def)
qed

text \<open>
  Claim C10 as first stated has \<open>fetch_records\<close> read the token fields unconditionally
  and fail on every retriever that has not searched.  On a new retriever
  \<open>fetch_records(0)\<close> returns the empty list and sends nothing.
\<close>

theorem fetch_records_unsearched_counterexample:
  "after_searches [] new_retriever = (new_retriever, False)
   \<and> fetch_records sample_env new_retriever 0 = (Inr [], [])"
  by (simp add: fetch_records_def py_range.simps)

section \<open>Terminal states of the orchestrator\<close>

lemma search_try_out:
  "search_try e taxid self out =
     (case search_try e taxid self [] of (v, self', out') \<Rightarrow> (v, self', out @ out'))"
  by (simp add: search_try_def Let_def split: sum.splits list.splits option.splits)

lemma search_out:
  "search e taxid self out =
     (case search e taxid self [] of (v, self', out') \<Rightarrow> (v, self', out @ out'))"
proof -
  obtain v self' out' where st: "search_try e taxid self [] = (v, self', out')"
    by (cases "search_try e taxid self []")
  then have "search_try e taxid self out = (v, self', out @ out')"
    using search_try_out [of e taxid self out] by simp
  with st show ?thesis by (cases v) (simp_all add: search_def)
qed

text \<open>The state in which \<open>main\<close> calls \<open>search\<close>, after the five prompts.\<close>

lemma main_reads_inputs:
  assumes "stdin w = email # api_key # taxid # min_text # max_text # rest"
    and "py_int e min_text = Inr min_len"
    and "py_int e max_text = Inr max_len"
  shows "main e w =
     then_do (call_search e taxid new_retriever) (\<lambda>(count, retriever).
       if count = 0 then print ''No results.''
       else
     then_do (print (''Fetching up to 1000 records out of '' @ str_int count
                      @ '' available...'')) (\<lambda>u.
     then_do (lift (fst (fetch_records e retriever 1000))) (\<lambda>raw_records.
       (let filtered = filter_records raw_records min_len max_len in
        if filtered = [] then print ''No records match length criteria.''
        else
          (let csv_name = ''taxid_'' @ taxid @ ''_filtered.csv'';
               png_name = ''taxid_'' @ taxid @ ''_plot.png''
           in
     then_do (save_csv e filtered csv_name) (\<lambda>df.
     then_do (plot_lengths e df png_name) (\<lambda>u.
     then_do (print (''Saved '' @ str_int (int (length filtered)) @ '' records to ''
                      @ csv_name)) (\<lambda>u.
       print (''Plot saved as '' @ png_name)))))))))
     (w\<lparr>stdin := rest,
        stdout := stdout w @ [''Enter NCBI email: '', ''Enter NCBI API key: '',
           ''Enter TaxID: '', ''Min sequence length: '', ''Max sequence length: ''],
        entrez_email := Some email, entrez_api_key := Some api_key,
        entrez_tool := Some ''BioScriptEx10''\<rparr>)"
  using assms
  by (simp add: main_def then_do_def input_def lift_def NCBIRetriever_def)

lemma call_search_keeps_files:
  "files (snd (call_search e taxid self w)) = files w
   \<and> figures (snd (call_search e taxid self w)) = figures w"
  by (simp add: call_search_def split: prod.splits sum.splits)

lemma call_search_value:
  "fst (search e taxid self []) = Inr n \<Longrightarrow>
   fst (call_search e taxid self w) = Inr (n, fst (snd (search e taxid self [])))"
proof -
  assume n: "fst (search e taxid self []) = Inr n"
  obtain v self' out' where s: "search e taxid self [] = (v, self', out')"
    by (cases "search e taxid self []")
  then have "search e taxid self (stdout w) = (v, self', stdout w @ out')"
    using search_out [of e taxid self "stdout w"] by simp
  with s n show ?thesis by (simp add: call_search_def)
qed

text \<open>
  Claim C4.  When the five inputs have been read and \<open>search\<close> returns 0 (no match, or an
  error it has caught), \<open>main\<close> prints \<open>No results.\<close> as its last line and returns
  normally; the files of the working directory and the open figures are as before, so neither
  the CSV file nor the image has been created.
\<close>

theorem main_no_results:
  assumes "stdin w = email # api_key # taxid # min_text # max_text # rest"
    and "py_int e min_text = Inr min_len"
    and "py_int e max_text = Inr max_len"
    and "fst (search e taxid new_retriever []) = Inr 0"
  shows "fst (main e w) = Inr ()
     \<and> last (stdout (snd (main e w))) = ''No results.''
     \<and> files (snd (main e w)) = files w
     \<and> figures (snd (main e w)) = figures w"
proof -
  let ?w1 = "w\<lparr>stdin := rest,
        stdout := stdout w @ [''Enter NCBI email: '', ''Enter NCBI API key: '',
           ''Enter TaxID: '', ''Min sequence length: '', ''Max sequence length: ''],
        entrez_email := Some email, entrez_api_key := Some api_key,
        entrez_tool := Some ''BioScriptEx10''\<rparr>"
  obtain v w2 where cs: "call_search e taxid new_retriever ?w1 = (v, w2)"
    by (cases "call_search e taxid new_retriever ?w1")
  from call_search_value [OF assms(4), of ?w1] cs
  have v: "v = Inr (0, fst (snd (search e taxid new_retriever [])))" by simp
  from call_search_keeps_files [of e taxid new_retriever ?w1] cs
  have keep: "files w2 = files w" "figures w2 = figures w" by simp_all
  have "main e w = print ''No results.'' w2"
    by (simp add: main_reads_inputs [OF assms(1-3)] then_do_def cs v)
  then show ?thesis by (simp add: print_def keep)
qed

text \<open>
  Claim C5.  When \<open>search\<close> has returned a count other than 0, the fetch has returned and
  no fetched record is within the bounds, \<open>main\<close> prints
  \<open>No records match length criteria.\<close> as its last line and returns normally; the files
  and the open figures are as before, so neither the CSV file nor the image has been created.
\<close>

theorem main_no_matches:
  assumes "stdin w = email # api_key # taxid # min_text # max_text # rest"
    and "py_int e min_text = Inr min_len"
    and "py_int e max_text = Inr max_len"
    and "search e taxid new_retriever [] = (Inr found, self, out)"
    and "found \<noteq> 0"
    and "fst (fetch_records e self 1000) = Inr raw_records"
    and "filter_records raw_records min_len max_len = []"
  shows "fst (main e w) = Inr ()
     \<and> last (stdout (snd (main e w))) = ''No records match length criteria.''
     \<and> files (snd (main e w)) = files w
     \<and> figures (snd (main e w)) = figures w"
proof -
  let ?w1 = "w\<lparr>stdin := rest,
        stdout := stdout w @ [''Enter NCBI email: '', ''Enter NCBI API key: '',
           ''Enter TaxID: '', ''Min sequence length: '', ''Max sequence length: ''],
        entrez_email := Some email, entrez_api_key := Some api_key,
        entrez_tool := Some ''BioScriptEx10''\<rparr>"
  obtain v w2 where cs: "call_search e taxid new_retriever ?w1 = (v, w2)"
    by (cases "call_search e taxid new_retriever ?w1")
  from assms(4) have "fst (search e taxid new_retriever []) = Inr found" by simp
  from call_search_value [OF this, of ?w1] cs assms(4)
  have v: "v = Inr (found, self)" by simp
  from call_search_keeps_files [of e taxid new_retriever ?w1] cs
  have keep: "files w2 = files w" "figures w2 = figures w" by simp_all
  let ?w3 = "w2\<lparr>stdout := stdout w2 @ [''Fetching up to 1000 records out of '' @ str_int found
                      @ '' available...'']\<rparr>"
  have "main e w = print ''No records match length criteria.'' ?w3"
    using assms(5-7)
    by (simp add: main_reads_inputs [OF assms(1-3)] then_do_def cs v print_def lift_def)
  then show ?thesis by (simp add: print_def keep)
qed


lemma sample_int_values:
  "sample_int ''10'' = Inr 10" "sample_int ''20'' = Inr 20" "sample_int ''0'' = Inr 0"
  "sample_int ''1200'' = Inr 1200"
  by (simp_all add: sample_int_def strip_def is_space_def read_signed_def read_unsigned_def
      is_digit_def digit_value_def)

lemma no_hits_search:
  "search no_hits_env ''9606'' new_retriever []
     = (Inr 0, \<lparr>organism = Some ''Homo sapiens'', count = Some 0, webenv = Some ''MCID_1'',
                query_key = Some ''1''\<rparr>, [''Organism: Homo sapiens''])"
  by (simp add: search_def search_try_def no_hits_env_def sample_env_def sample_int_values
      new_retriever_def)

theorem main_no_results_witness:
  "fst (main no_hits_env (sample_world [''a@b.c'', ''key'', ''9606'', ''10'', ''20''])) = Inr ()
   \<and> last (stdout (snd (main no_hits_env
         (sample_world [''a@b.c'', ''key'', ''9606'', ''10'', ''20''])))) = ''No results.''
   \<and> files (snd (main no_hits_env
         (sample_world [''a@b.c'', ''key'', ''9606'', ''10'', ''20'']))) = Map.empty
   \<and> figures (snd (main no_hits_env
         (sample_world [''a@b.c'', ''key'', ''9606'', ''10'', ''20'']))) = []"
proof -
  let ?w = "sample_world [''a@b.c'', ''key'', ''9606'', ''10'', ''20'']"
  have lines: "stdin ?w = ''a@b.c'' # ''key'' # ''9606'' # ''10'' # ''20'' # []"
    by (simp add: sample_world_def)
  have lo: "py_int no_hits_env ''10'' = Inr 10"
    by (simp add: no_hits_env_def sample_env_def sample_int_values)
  have hi: "py_int no_hits_env ''20'' = Inr 20"
    by (simp add: no_hits_env_def sample_env_def sample_int_values)
  have zero: "fst (search no_hits_env ''9606'' new_retriever []) = Inr 0"
    by (simp add: no_hits_search)
  from main_no_results [OF lines lo hi zero] show ?thesis
    by (simp add: sample_world_def)
qed

lemma sample_search:
  "search sample_env ''9606'' new_retriever [] = (Inr 1200, searched, [''Organism: Homo sapiens''])"
  by (simp add: search_def search_try_def sample_env_def sample_int_values
      new_retriever_def searched_def)

lemma py_range_1000: "py_range 0 1000 batch_size = [0, 500]"
  by (simp add: py_range.simps batch_size_def)

lemma sample_fetch_1000:
  "fst (fetch_records sample_env searched 1000) = Inr (sample_records @ sample_records)"
  by (simp add: fetch_records_def py_range_1000 searched_def sample_env_def)

theorem main_no_matches_witness:
  "fst (main sample_env (sample_world [''a@b.c'', ''key'', ''9606'', ''10'', ''20''])) = Inr ()
   \<and> last (stdout (snd (main sample_env
         (sample_world [''a@b.c'', ''key'', ''9606'', ''10'', ''20'']))))
       = ''No records match length criteria.''
   \<and> files (snd (main sample_env
         (sample_world [''a@b.c'', ''key'', ''9606'', ''10'', ''20'']))) = Map.empty
   \<and> figures (snd (main sample_env
         (sample_world [''a@b.c'', ''key'', ''9606'', ''10'', ''20'']))) = []"
proof -
  let ?w = "sample_world [''a@b.c'', ''key'', ''9606'', ''10'', ''20'']"
  have lines: "stdin ?w = ''a@b.c'' # ''key'' # ''9606'' # ''10'' # ''20'' # []"
    by (simp add: sample_world_def)
  have lo: "py_int sample_env ''10'' = Inr 10"
    by (simp add: sample_env_def sample_int_values)
  have hi: "py_int sample_env ''20'' = Inr 20"
    by (simp add: sample_env_def sample_int_values)
  have some: "(1200::int) \<noteq> 0" by simp
  have none: "filter_records (sample_records @ sample_records) 10 20 = []"
    by (simp add: sample_records_def len_seq_def)
  from main_no_matches [OF lines lo hi sample_search some sample_fetch_1000 none]
  show ?thesis by (simp add: sample_world_def)
qed

section \<open>Release of the figure\<close>

lemma plot_lengths_saved:
  "df \<noteq> [] \<Longrightarrow> savefig_error e png_filename = None \<Longrightarrow>
   fst (plot_lengths e df png_filename w) = Inr ()
   \<and> figures (snd (plot_lengths e df png_filename w)) = figures w
   \<and> files (snd (plot_lengths e df png_filename w)) png_filename \<noteq> None"
  by (simp add: plot_lengths_def plt_savefig_def plt_figure_def plt_close_def on_current_def
      Let_def)

lemma plot_lengths_not_saved:
  "df \<noteq> [] \<Longrightarrow> savefig_error e png_filename = Some x \<Longrightarrow>
   fst (plot_lengths e df png_filename w) = Inl x
   \<and> length (figures (snd (plot_lengths e df png_filename w))) = Suc (length (figures w))
   \<and> tl (figures (snd (plot_lengths e df png_filename w))) = figures w
   \<and> files (snd (plot_lengths e df png_filename w)) = files w"
  by (simp add: plot_lengths_def plt_savefig_def plt_figure_def plt_close_def on_current_def
      Let_def)

text \<open>
  Claim C8, as amended.  \<open>plot_lengths\<close> on a table with rows closes its figure after the
  image has been written: when \<open>plt.savefig\<close> returns, the call returns with the open
  figures as they were before it and the image file in place.  When \<open>plt.savefig\<close> raises,
  the exception leaves \<open>plot_lengths\<close> at once: \<open>plt.close()\<close> is not reached, the new
  figure stays open on top of the earlier ones, and no file is written.
\<close>

theorem plot_lengths_release:
  "df \<noteq> [] \<Longrightarrow>
   (savefig_error e png_filename = None \<longrightarrow>
      fst (plot_lengths e df png_filename w) = Inr ()
      \<and> figures (snd (plot_lengths e df png_filename w)) = figures w
      \<and> files (snd (plot_lengths e df png_filename w)) png_filename \<noteq> None)
   \<and> (\<forall>x. savefig_error e png_filename = Some x \<longrightarrow>
      fst (plot_lengths e df png_filename w) = Inl x
      \<and> length (figures (snd (plot_lengths e df png_filename w))) = Suc (length (figures w))
      \<and> tl (figures (snd (plot_lengths e df png_filename w))) = figures w
      \<and> files (snd (plot_lengths e df png_filename w)) = files w)"
  using plot_lengths_saved [of df e png_filename w] plot_lengths_not_saved [of df e png_filename _ w]
  by blast

theorem plot_lengths_release_witness:
  "fst (plot_lengths sample_env sample_table ''plot.png'' (sample_world [])) = Inr ()
   \<and> figures (snd (plot_lengths sample_env sample_table ''plot.png'' (sample_world []))) = []
   \<and> fst (plot_lengths read_only_env sample_table ''plot.png'' (sample_world []))
       = Inl (Exception ''PermissionError'' ''Permission denied'')
   \<and> length (figures (snd (plot_lengths read_only_env sample_table ''plot.png''
         (sample_world [])))) = 1"
proof -
  have rows: "sample_table \<noteq> []" by (simp add: sample_table_def)
  have ok: "savefig_error sample_env ''plot.png'' = None" by (simp add: sample_env_def)
  have denied: "savefig_error read_only_env ''plot.png''
      = Some (Exception ''PermissionError'' ''Permission denied'')"
    by (simp add: read_only_env_def sample_env_def)
  from plot_lengths_release [OF rows, of sample_env "''plot.png''" "sample_world []"] ok
  have saved: "fst (plot_lengths sample_env sample_table ''plot.png'' (sample_world [])) = Inr ()
      \<and> figures (snd (plot_lengths sample_env sample_table ''plot.png'' (sample_world [])))
          = figures (sample_world [])"
    by simp
  from plot_lengths_release [OF rows, of read_only_env "''plot.png''" "sample_world []"] denied
  have kept: "fst (plot_lengths read_only_env sample_table ''plot.png'' (sample_world []))
       = Inl (Exception ''PermissionError'' ''Permission denied'')
     \<and> length (figures (snd (plot_lengths read_only_env sample_table ''plot.png''
         (sample_world [])))) = Suc (length (figures (sample_world [])))"
    by simp
  from saved kept show ?thesis by (simp add: sample_world_def)
qed

text \<open>
  Claim C8 as first stated has the figure released also when writing the image fails.  With
  a working directory that cannot be written, no figure is open before the call and one is
  open after it.
\<close>

theorem plot_lengths_leaves_figure_counterexample:
  "figures (sample_world []) = []
   \<and> fst (plot_lengths read_only_env sample_table ''plot.png'' (sample_world []))
       = Inl (Exception ''PermissionError'' ''Permission denied'')
   \<and> length (figures (snd (plot_lengths read_only_env sample_table ''plot.png''
         (sample_world [])))) = 1"
  by (simp add: plot_lengths_def plt_savefig_def plt_figure_def plt_close_def on_current_def
      Let_def sample_world_def sample_table_def read_only_env_def sample_env_def)

end
